theory Spec2Isabelle
  imports Complex_Main
begin

section \<open>Python values and errors\<close>

text \<open>
  The program is the Python module \<^verbatim>\<open>lstm/datasets.py\<close>. It defines no exception class
  of its own: every failure is an exception of the interpreter or of a library that the
  code calls. The exceptions that can reach a caller are the constructors of \<open>error\<close>;
  a function that can raise returns \<open>error + 'a\<close>, with \<open>Inl\<close> the exception.
\<close>

datatype error =
    IndexError          \<comment> \<open>integer index outside a tensor's first axis\<close>
  | AttributeError      \<comment> \<open>read of an attribute that was never assigned\<close>
  | RuntimeError        \<comment> \<open>\<^verbatim>\<open>torch.tensor(None)\<close>: no dtype can be inferred\<close>
  | ValueError          \<comment> \<open>a library or the interpreter rejects a value\<close>
  | OverflowError       \<comment> \<open>a length that does not fit the interpreter's index type\<close>
  | KeyError            \<comment> \<open>a column label that the table does not have\<close>
  | FileNotFoundError   \<comment> \<open>the CSV file cannot be read\<close>

text \<open>
  \<^verbatim>\<open>t[start:stop]\<close> on the first axis of a tensor, as Python slices a sequence: a
  negative bound counts from the end, then both bounds are clamped to \<open>[0, len]\<close>; an
  empty range gives an empty result. A slice never raises.
\<close>

definition slice_bound :: "nat \<Rightarrow> int \<Rightarrow> nat" where
  "slice_bound n b =
     (let b' = (if b < 0 then b + int n else b)
      in if b' < 0 then 0 else if int n < b' then n else nat b')"

definition py_slice :: "'a list \<Rightarrow> int \<Rightarrow> int \<Rightarrow> 'a list" where
  "py_slice xs start stop =
     (let lo = slice_bound (length xs) start;
          hi = slice_bound (length xs) stop
      in take (hi - lo) (drop lo xs))"

text \<open>
  \<^verbatim>\<open>t[i]\<close> with an integer: defined for \<open>-len \<le> i < len\<close>, a negative index counting
  from the end; IndexError otherwise.
\<close>

definition py_index :: "'a list \<Rightarrow> int \<Rightarrow> error + 'a" where
  "py_index xs i =
     (let n = int (length xs)
      in if - n \<le> i \<and> i < n
         then Inr (xs ! nat (if i < 0 then i + n else i))
         else Inl IndexError)"

text \<open>
  \<^verbatim>\<open>torch.tensor(a).float()\<close>: the argument is an array (\<open>Some\<close> of its rows along the
  first axis) or Python's \<^verbatim>\<open>None\<close>. An array is converted row by row to single
  precision by \<open>cv\<close>, which is a parameter because floating-point rounding is not
  modelled; \<^verbatim>\<open>None\<close> raises RuntimeError in the tensor library.
\<close>

definition torch_tensor_float :: "('a \<Rightarrow> 'f) \<Rightarrow> 'a list option \<Rightarrow> error + 'f list" where
  "torch_tensor_float cv a =
     (case a of None \<Rightarrow> Inl RuntimeError | Some rs \<Rightarrow> Inr (map cv rs))"


section \<open>TimeseriesDataset\<close>

text \<open>
  The three attributes of \<^verbatim>\<open>TimeseriesDataset\<close>: the tensors \<^verbatim>\<open>X\<close> and \<^verbatim>\<open>y\<close>, each
  a list of rows along the first axis, and \<^verbatim>\<open>seq_len\<close>, a Python integer.
\<close>

record ('x, 'y) TimeseriesDataset =
  ds_X :: "'x list"
  ds_y :: "'y list"
  ds_seq_len :: int

text \<open>\<^verbatim>\<open>__init__(self, X, y, seq_len)\<close>: \<^verbatim>\<open>X\<close> is converted first, then \<^verbatim>\<open>y\<close>.\<close>

definition TimeseriesDataset_init ::
  "('a \<Rightarrow> 'x) \<Rightarrow> ('b \<Rightarrow> 'y) \<Rightarrow> 'a list option \<Rightarrow> 'b list option \<Rightarrow> int
     \<Rightarrow> error + ('x, 'y) TimeseriesDataset" where
  "TimeseriesDataset_init cx cy X y seq_len =
     (case torch_tensor_float cx X of
        Inl e \<Rightarrow> Inl e
      | Inr tX \<Rightarrow>
          (case torch_tensor_float cy y of
             Inl e \<Rightarrow> Inl e
           | Inr ty \<Rightarrow> Inr \<lparr>ds_X = tX, ds_y = ty, ds_seq_len = seq_len\<rparr>))"

text \<open>\<^verbatim>\<open>__len__\<close>: \<^verbatim>\<open>self.X.__len__() - (self.seq_len-1)\<close>, a Python integer of any sign.\<close>

definition TimeseriesDataset_len :: "('x, 'y) TimeseriesDataset \<Rightarrow> int" where
  "TimeseriesDataset_len self = int (length (ds_X self)) - (ds_seq_len self - 1)"

text \<open>
  \<^verbatim>\<open>len(dataset)\<close>, the way callers and the batch iteration ask for the length: the
  interpreter calls \<^verbatim>\<open>__len__\<close>, raises ValueError when the result is negative and
  OverflowError when it is above \<^verbatim>\<open>sys.maxsize\<close> (\<open>2 ^ 63 - 1\<close> on a 64-bit platform).
\<close>

definition sys_maxsize :: int where
  "sys_maxsize = 2 ^ 63 - 1"

definition builtin_len :: "('x, 'y) TimeseriesDataset \<Rightarrow> error + int" where
  "builtin_len self =
     (let n = TimeseriesDataset_len self
      in if n < 0 then Inl ValueError
         else if sys_maxsize < n then Inl OverflowError
         else Inr n)"

text \<open>
  \<^verbatim>\<open>__getitem__\<close>: the slice of \<^verbatim>\<open>X\<close> is taken first and cannot raise; the read of
  \<^verbatim>\<open>y\<close> raises when its index is out of range.
\<close>

definition TimeseriesDataset_getitem ::
  "('x, 'y) TimeseriesDataset \<Rightarrow> int \<Rightarrow> error + ('x list \<times> 'y)" where
  "TimeseriesDataset_getitem self index =
     (let x = py_slice (ds_X self) index (index + ds_seq_len self)
      in case py_index (ds_y self) (index + ds_seq_len self - 1) of
           Inl e \<Rightarrow> Inl e
         | Inr y \<Rightarrow> Inr (x, y))"



section \<open>Library operations used by the data module\<close>

text \<open>
  A pandas table: the column labels and the rows in table order, every row holding one
  cell per column. The cell type is \<open>'a option\<close> where a cell may be missing (NaN is
  \<open>None\<close>) and \<open>'a\<close> where it cannot.
\<close>

record 'c DataFrame =
  df_columns :: "string list"
  df_rows :: "'c list list"

text \<open>
  Modelled from the spec: \<^verbatim>\<open>df.dropna()\<close> (line 146), "drop any row containing a missing
  value in the remaining columns (no imputation)". The rows that are kept stay in order
  and have no missing cell.
\<close>

definition dropna :: "'a option DataFrame \<Rightarrow> 'a DataFrame" where
  "dropna df = \<lparr>df_columns = df_columns df, df_rows = List.map_filter those (df_rows df)\<rparr>"

text \<open>\<^verbatim>\<open>X['Deaths']\<close>: the column with that label, KeyError if there is none.\<close>

fun column_position :: "string \<Rightarrow> string list \<Rightarrow> nat option" where
  "column_position c [] = None"
| "column_position c (x # xs) =
     (if x = c then Some 0 else map_option Suc (column_position c xs))"

definition getitem_column :: "'c DataFrame \<Rightarrow> string \<Rightarrow> error + 'c list" where
  "getitem_column df c =
     (case column_position c (df_columns df) of
        None \<Rightarrow> Inl KeyError
      | Some k \<Rightarrow> Inr (map (\<lambda>r. r ! k) (df_rows df)))"

text \<open>
  Modelled from the spec: \<^verbatim>\<open>Series.shift(periods)\<close> moves every value \<open>periods\<close> rows
  down (up when negative) and leaves the vacated rows missing; \<^verbatim>\<open>Series.ffill()\<close> is
  the glossary's forward-fill, "replacing a missing value with the nearest preceding
  non-missing value" (a missing value with nothing before it stays missing).
\<close>

definition Series_shift :: "'a option list \<Rightarrow> int \<Rightarrow> 'a option list" where
  "Series_shift xs periods =
     (let n = length xs
      in if periods < 0
         then drop (nat (- periods)) xs @ replicate (min n (nat (- periods))) None
         else replicate (min n (nat periods)) None @ take (n - nat periods) xs)"

fun ffill_from :: "'a option \<Rightarrow> 'a option list \<Rightarrow> 'a option list" where
  "ffill_from prev [] = []"
| "ffill_from prev (None # xs) = prev # ffill_from prev xs"
| "ffill_from prev (Some v # xs) = Some v # ffill_from (Some v) xs"

definition Series_ffill :: "'a option list \<Rightarrow> 'a option list" where
  "Series_ffill xs = ffill_from None xs"

text \<open>
  Modelled from the spec: the chronological splitter, "given ordered rows and a target
  fraction, return a prefix/suffix split without reordering", which the code calls as
  \<^verbatim>\<open>train_test_split(X, y, test_size=f, shuffle=False)\<close>. The test part is the last
  \<open>\<lceil>f * n\<rceil>\<close> of the \<open>n\<close> rows, the train part the rows before them; the call raises
  ValueError when the two arguments differ in length, when the fraction is not inside
  \<open>(0, 1)\<close> and when the train part would be empty. The fraction is a rational number
  and the product is exact: the literals \<^verbatim>\<open>0.10\<close> and \<^verbatim>\<open>0.05\<close> of the code are
  \<open>1 / 10\<close> and \<open>1 / 20\<close>.
\<close>

definition train_test_split ::
  "'r list \<Rightarrow> 't list \<Rightarrow> rat \<Rightarrow> error + ('r list \<times> 'r list \<times> 't list \<times> 't list)" where
  "train_test_split X y test_size =
     (if length X \<noteq> length y then Inl ValueError
      else if test_size \<le> 0 \<or> 1 \<le> test_size then Inl ValueError
      else
        let n_samples = length X;
            n_test = nat \<lceil>test_size * of_nat n_samples\<rceil>;
            n_train = n_samples - n_test
        in if n_train = 0 then Inl ValueError
           else Inr (take n_train X, drop n_train X, take n_train y, drop n_train y))"

text \<open>
  The scaler (\<^verbatim>\<open>StandardScaler\<close>) is a parameter of the model: \<open>scaler_fit\<close> computes the
  fitted parameters from a matrix, \<open>scaler_transform\<close> applies fitted parameters to a
  matrix, and either may raise. Nothing is assumed about what they compute.
\<close>

record ('a, 'p, 'b) scaler =
  scaler_fit :: "'a list list \<Rightarrow> error + 'p"
  scaler_transform :: "'p \<Rightarrow> 'a list list \<Rightarrow> error + 'b list list"

text \<open>\<^verbatim>\<open>series.values.reshape((-1, 1))\<close>: a column vector, one single-cell row per value.\<close>

definition reshape_column :: "'t list \<Rightarrow> 't list list" where
  "reshape_column v = map (\<lambda>x. [x]) v"

text \<open>
  \<^verbatim>\<open>DataLoader(dataset, batch_size, shuffle, num_workers)\<close>: the loader keeps its
  arguments; the library rejects a negative worker count and a batch size that is not
  positive.
\<close>

record ('x, 'y) DataLoader =
  dl_dataset :: "('x, 'y) TimeseriesDataset"
  dl_batch_size :: int
  dl_shuffle :: bool
  dl_num_workers :: int

definition DataLoader_init ::
  "('x, 'y) TimeseriesDataset \<Rightarrow> int \<Rightarrow> bool \<Rightarrow> int \<Rightarrow> error + ('x, 'y) DataLoader" where
  "DataLoader_init dataset bs sh nw =
     (if nw < 0 then Inl ValueError
      else if bs \<le> 0 then Inl ValueError
      else Inr \<lparr>dl_dataset = dataset, dl_batch_size = bs, dl_shuffle = sh,
                dl_num_workers = nw\<rparr>)"


section \<open>PowerConsumptionDataModule\<close>

text \<open>
  An attribute that \<^verbatim>\<open>__init__\<close> may leave unassigned: reading it then raises
  AttributeError, which is not the same as reading \<^verbatim>\<open>None\<close>.
\<close>

datatype 'v attribute = Unassigned | Assigned 'v

text \<open>
  The attributes of the module. An array attribute holds \<^verbatim>\<open>None\<close> or an array (a
  list of rows); \<open>'b\<close> is the type of a scaled cell, \<open>'t\<close> of a target cell. The
  constructor never assigns \<^verbatim>\<open>y_test\<close>, so that attribute alone can be unassigned.
\<close>

record ('b, 't) PowerConsumptionDataModule =
  seq_len :: int
  batch_size :: int
  num_workers :: int
  X_train :: "'b list list option"
  y_train :: "'t list list option"
  X_val :: "'b list list option"
  y_val :: "'t list list option"
  X_test :: "'b list list option"
  y_test :: "'t list list option attribute"
  columns :: "string list option"
  preprocessing :: "unit option"

text \<open>
  \<^verbatim>\<open>__init__(self, seq_len = 1, batch_size = 128, num_workers = 0)\<close>. Lines 51 and 52
  both assign \<^verbatim>\<open>self.X_test = None\<close>; no line assigns \<^verbatim>\<open>self.y_test\<close>.
\<close>

definition PowerConsumptionDataModule_init ::
  "int \<Rightarrow> int \<Rightarrow> int \<Rightarrow> ('b, 't) PowerConsumptionDataModule" where
  "PowerConsumptionDataModule_init sl bs nw =
     \<lparr>seq_len = sl, batch_size = bs, num_workers = nw,
      X_train = None, y_train = None, X_val = None, y_val = None,
      X_test = None, y_test = Unassigned, columns = None, preprocessing = None\<rparr>"

text \<open>Line 148: \<^verbatim>\<open>y = X['Deaths'].shift(-1).ffill()\<close>.\<close>

definition derive_target :: "'a DataFrame \<Rightarrow> error + 'a option list" where
  "derive_target X =
     (case getitem_column X ''Deaths'' of
        Inl e \<Rightarrow> Inl e
      | Inr deaths \<Rightarrow> Inr (Series_ffill (Series_shift (map Some deaths) (- 1))))"

text \<open>Lines 151 to 157: the two unshuffled splits, and the six local variables they bind.\<close>

record ('r, 't) splits =
  sp_X_train :: "'r list"
  sp_X_val :: "'r list"
  sp_X_test :: "'r list"
  sp_y_train :: "'t list"
  sp_y_val :: "'t list"
  sp_y_test :: "'t list"

definition chronological_split :: "'r list \<Rightarrow> 't list \<Rightarrow> error + ('r, 't) splits" where
  "chronological_split X y =
     (case train_test_split X y (1 / 10) of
        Inl e \<Rightarrow> Inl e
      | Inr (X_cv, X_te, y_cv, y_te) \<Rightarrow>
          (case train_test_split X_cv y_cv (1 / 20) of
             Inl e \<Rightarrow> Inl e
           | Inr (X_tr, X_va, y_tr, y_va) \<Rightarrow>
               Inr \<lparr>sp_X_train = X_tr, sp_X_val = X_va, sp_X_test = X_te,
                    sp_y_train = y_tr, sp_y_val = y_va, sp_y_test = y_te\<rparr>))"

text \<open>
  Lines 151 to 160: the splits, then \<^verbatim>\<open>preprocessing.fit(X_train)\<close> on a new scaler.
  The result is the splits and the fitted parameters.
\<close>

definition split_and_fit ::
  "('a, 'p, 'b) scaler \<Rightarrow> 'a list list \<Rightarrow> 't list \<Rightarrow> error + (('a list, 't) splits \<times> 'p)" where
  "split_and_fit sc X y =
     (case chronological_split X y of
        Inl e \<Rightarrow> Inl e
      | Inr sp \<Rightarrow>
          (case scaler_fit sc (sp_X_train sp) of
             Inl e \<Rightarrow> Inl e
           | Inr p \<Rightarrow> Inr (sp, p)))"

text \<open>
  A method that assigns attributes returns the module as it leaves it and the exception
  it raised, if any: an exception raised half-way keeps the assignments made before it.

  Lines 162 to 166, the branch for stage \<^verbatim>\<open>'fit'\<close> or \<^verbatim>\<open>None\<close>.
\<close>

definition assign_fit ::
  "('a, 'p, 'b) scaler \<Rightarrow> 'p \<Rightarrow> ('a list, 't) splits \<Rightarrow> string option
     \<Rightarrow> ('b, 't) PowerConsumptionDataModule
     \<Rightarrow> ('b, 't) PowerConsumptionDataModule \<times> error option" where
  "assign_fit sc p sp stage self =
     (if stage = Some ''fit'' \<or> stage = None then
        (case scaler_transform sc p (sp_X_train sp) of
           Inl e \<Rightarrow> (self, Some e)
         | Inr a \<Rightarrow>
             let self1 = self\<lparr>X_train := Some a,
                              y_train := Some (reshape_column (sp_y_train sp))\<rparr>
             in (case scaler_transform sc p (sp_X_val sp) of
                   Inl e \<Rightarrow> (self1, Some e)
                 | Inr b \<Rightarrow>
                     (self1\<lparr>X_val := Some b,
                            y_val := Some (reshape_column (sp_y_val sp))\<rparr>, None)))
      else (self, None))"

text \<open>Lines 168 to 170, the branch for stage \<^verbatim>\<open>'test'\<close> or \<^verbatim>\<open>None\<close>.\<close>

definition assign_test ::
  "('a, 'p, 'b) scaler \<Rightarrow> 'p \<Rightarrow> ('a list, 't) splits \<Rightarrow> string option
     \<Rightarrow> ('b, 't) PowerConsumptionDataModule
     \<Rightarrow> ('b, 't) PowerConsumptionDataModule \<times> error option" where
  "assign_test sc p sp stage self =
     (if stage = Some ''test'' \<or> stage = None then
        (case scaler_transform sc p (sp_X_test sp) of
           Inl e \<Rightarrow> (self, Some e)
         | Inr c \<Rightarrow>
             (self\<lparr>X_test := Some c,
                   y_test := Assigned (Some (reshape_column (sp_y_test sp)))\<rparr>, None))
      else (self, None))"

text \<open>
  \<^verbatim>\<open>setup(self, stage=None)\<close>. The stage is a string or \<^verbatim>\<open>None\<close>. The parameter
  \<open>table\<close> is what lines 73 to 145 produce from the file system: the table read from the
  CSV file, sorted and with eight columns dropped, or the exception raised on the way.
  The diagnostic \<^verbatim>\<open>print(X)\<close> has no effect on the module. (The docstring of the
  method speaks of resampling to hourly intervals and of an index merged from a date
  and a time column; the code does neither, it takes the \<^verbatim>\<open>Date\<close> column as the
  index and keeps every row, and the model follows the code.)
\<close>

definition setup_module ::
  "('a, 'p, 'b) scaler \<Rightarrow> error + 'a option DataFrame \<Rightarrow> string option
     \<Rightarrow> ('b, 'a option) PowerConsumptionDataModule
     \<Rightarrow> ('b, 'a option) PowerConsumptionDataModule \<times> error option" where
  "setup_module sc table stage self =
     (if stage = Some ''fit'' \<and> X_train self \<noteq> None then (self, None)
      else if stage = Some ''test'' \<and> X_test self \<noteq> None then (self, None)
      else if stage = None \<and> X_train self \<noteq> None \<and> X_test self \<noteq> None then (self, None)
      else
        (case table of
           Inl e \<Rightarrow> (self, Some e)
         | Inr df \<Rightarrow>
             let X = dropna df
             in (case derive_target X of
                   Inl e \<Rightarrow> (self, Some e)
                 | Inr y \<Rightarrow>
                     let self1 = self\<lparr>columns := Some (df_columns X)\<rparr>
                     in (case split_and_fit sc (df_rows X) y of
                           Inl e \<Rightarrow> (self1, Some e)
                         | Inr (sp, p) \<Rightarrow>
                             (case assign_fit sc p sp stage self1 of
                                (self2, Some e) \<Rightarrow> (self2, Some e)
                              | (self2, None) \<Rightarrow> assign_test sc p sp stage self2)))))"

text \<open>
  The three dataloader methods. The arguments of the \<^verbatim>\<open>TimeseriesDataset\<close> call are
  read left to right before the call; \<open>cx\<close> and \<open>cy\<close> are the conversions of a feature
  row and of a target row to single precision. No method assigns an attribute, so the
  module is not part of the result.
\<close>

definition train_dataloader ::
  "('b list \<Rightarrow> 'x) \<Rightarrow> ('t list \<Rightarrow> 'y) \<Rightarrow> ('b, 't) PowerConsumptionDataModule
     \<Rightarrow> error + ('x, 'y) DataLoader" where
  "train_dataloader cx cy self =
     (case TimeseriesDataset_init cx cy (X_train self) (y_train self) (seq_len self) of
        Inl e \<Rightarrow> Inl e
      | Inr train_dataset \<Rightarrow>
          DataLoader_init train_dataset (batch_size self) False (num_workers self))"

definition val_dataloader ::
  "('b list \<Rightarrow> 'x) \<Rightarrow> ('t list \<Rightarrow> 'y) \<Rightarrow> ('b, 't) PowerConsumptionDataModule
     \<Rightarrow> error + ('x, 'y) DataLoader" where
  "val_dataloader cx cy self =
     (case TimeseriesDataset_init cx cy (X_val self) (y_val self) (seq_len self) of
        Inl e \<Rightarrow> Inl e
      | Inr val_dataset \<Rightarrow>
          DataLoader_init val_dataset (batch_size self) False (num_workers self))"

definition test_dataloader ::
  "('b list \<Rightarrow> 'x) \<Rightarrow> ('t list \<Rightarrow> 'y) \<Rightarrow> ('b, 't) PowerConsumptionDataModule
     \<Rightarrow> error + ('x, 'y) DataLoader" where
  "test_dataloader cx cy self =
     (case y_test self of
        Unassigned \<Rightarrow> Inl AttributeError
      | Assigned yt \<Rightarrow>
          (case TimeseriesDataset_init cx cy (X_test self) yt (seq_len self) of
             Inl e \<Rightarrow> Inl e
           | Inr test_dataset \<Rightarrow>
               DataLoader_init test_dataset (batch_size self) False (num_workers self)))"

text \<open>
  A caller that invokes \<^verbatim>\<open>setup\<close> several times, catching whatever a call raises: each
  call has its stage and finds its own table on the file system.
\<close>

fun setup_calls ::
  "('a, 'p, 'b) scaler \<Rightarrow> (string option \<times> (error + 'a option DataFrame)) list
     \<Rightarrow> ('b, 'a option) PowerConsumptionDataModule
     \<Rightarrow> ('b, 'a option) PowerConsumptionDataModule" where
  "setup_calls sc [] self = self"
| "setup_calls sc ((stage, table) # cs) self =
     setup_calls sc cs (fst (setup_module sc table stage self))"

text \<open>
  A scaler to run the pipeline on concrete tables: it centres every column on the mean
  of the matrix it was fitted on.
\<close>

definition centring_scaler :: "(rat, rat list, rat) scaler" where
  "centring_scaler =
     \<lparr>scaler_fit = (\<lambda>X. Inr (map (\<lambda>c. sum_list c / of_nat (length c)) (transpose X))),
      scaler_transform = (\<lambda>p X. Inr (map (\<lambda>r. map2 (-) r p) X))\<rparr>"


section \<open>The windowed dataset: length and items\<close>

lemma init_arrays:
  "TimeseriesDataset_init cx cy (Some X) (Some y) s =
     Inr \<lparr>ds_X = map cx X, ds_y = map cy y, ds_seq_len = s\<rparr>"
  by (simp add: TimeseriesDataset_init_def torch_tensor_float_def)

lemma slice_bound_inside: "0 \<le> b \<Longrightarrow> b \<le> int n \<Longrightarrow> slice_bound n b = nat b"
  by (simp add: slice_bound_def)

lemma py_slice_inside:
  assumes "0 \<le> i" and "0 \<le> s" and "i + s \<le> int (length xs)"
  shows "py_slice xs i (i + s) = take (nat s) (drop (nat i) xs)"
proof -
  from assms have lo: "slice_bound (length xs) i = nat i"
    by (intro slice_bound_inside) auto
  from assms have hi: "slice_bound (length xs) (i + s) = nat (i + s)"
    by (intro slice_bound_inside) auto
  from assms have "nat (i + s) - nat i = nat s" by linarith
  with lo hi show ?thesis by (simp add: py_slice_def)
qed

lemma py_index_inside:
  "0 \<le> j \<Longrightarrow> j < int (length xs) \<Longrightarrow> py_index xs j = Inr (xs ! nat j)"
  by (simp add: py_index_def)

text \<open>
  C1. For a feature matrix \<open>X\<close> and a target vector \<open>y\<close> with the same number of rows, a
  positive \<open>seq_len\<close> and an index \<open>i\<close> with \<open>0 \<le> i < length()\<close>, the dataset is built
  without error and \<open>item(i)\<close> returns the rows \<open>i, ..., i + seq_len - 1\<close> of \<open>X\<close>
  together with the value of \<open>y\<close> at row \<open>i + seq_len - 1\<close> (both as converted to
  tensors by the constructor).
\<close>

theorem getitem_window:
  assumes "length X = length y" and "0 < s"
    and "TimeseriesDataset_init cx cy (Some X) (Some y) s = Inr d"
    and "0 \<le> i" and "i < TimeseriesDataset_len d"
  shows "TimeseriesDataset_getitem d i =
           Inr (map cx (take (nat s) (drop (nat i) X)), cy (y ! nat (i + s - 1)))
         \<and> length (take (nat s) (drop (nat i) X)) = nat s"
proof -
  from assms(3) have d: "d = \<lparr>ds_X = map cx X, ds_y = map cy y, ds_seq_len = s\<rparr>"
    by (simp add: init_arrays)
  from assms(5) d have bound: "i + s \<le> int (length X)"
    by (simp add: TimeseriesDataset_len_def)
  from assms(2,4) bound have sl:
    "py_slice (map cx X) i (i + s) = take (nat s) (drop (nat i) (map cx X))"
    by (intro py_slice_inside) auto
  from assms(1,2,4) bound have ix:
    "py_index (map cy y) (i + s - 1) = Inr (map cy y ! nat (i + s - 1))"
    by (intro py_index_inside) auto
  from assms(1,2,4) bound have "nat (i + s - 1) < length y" by linarith
  then have nth: "map cy y ! nat (i + s - 1) = cy (y ! nat (i + s - 1))" by simp
  from assms(2,4) bound have len: "length (take (nat s) (drop (nat i) X)) = nat s"
    by simp
  from sl ix nth len show ?thesis
    by (simp add: d TimeseriesDataset_getitem_def take_map drop_map)
qed

theorem getitem_window_witness:
  "TimeseriesDataset_getitem
     \<lparr>ds_X = [[1, 2], [3, 4], [5, 6 :: int]], ds_y = [10, 20, 30 :: int], ds_seq_len = 2\<rparr> 1
   = Inr ([[3, 4], [5, 6]], 30)"
proof -
  have a: "length [[1, 2], [3, 4], [5, 6 :: int]] = length [10, 20, 30 :: int]" by simp
  have b: "TimeseriesDataset_init id id (Some [[1, 2], [3, 4], [5, 6 :: int]])
             (Some [10, 20, 30 :: int]) 2
           = Inr \<lparr>ds_X = [[1, 2], [3, 4], [5, 6]], ds_y = [10, 20, 30], ds_seq_len = 2\<rparr>"
    by (simp add: init_arrays)
  have c: "(1::int) < TimeseriesDataset_len
             \<lparr>ds_X = [[1, 2], [3, 4], [5, 6 :: int]], ds_y = [10, 20, 30 :: int], ds_seq_len = 2\<rparr>"
    by (simp add: TimeseriesDataset_len_def)
  from getitem_window [OF a _ b _ c] show ?thesis by simp
qed

text \<open>
  C2. For a feature matrix of \<open>L\<close> rows and \<open>seq_len = s \<le> L\<close>, \<open>length()\<close> is
  \<open>L - s + 1\<close>.
\<close>

theorem len_windows:
  assumes "s \<le> int (length X)"
    and "TimeseriesDataset_init cx cy (Some X) (Some y) s = Inr d"
  shows "TimeseriesDataset_len d = int (length X) - s + 1"
  using assms by (auto simp: init_arrays TimeseriesDataset_len_def)

theorem len_windows_witness:
  "TimeseriesDataset_len
     \<lparr>ds_X = [[1, 2], [3, 4], [5, 6 :: int]], ds_y = [10, 20, 30 :: int], ds_seq_len = 2\<rparr> = 2"
proof -
  have a: "(2::int) \<le> int (length [[1, 2], [3, 4], [5, 6 :: int]])" by simp
  have b: "TimeseriesDataset_init id id (Some [[1, 2], [3, 4], [5, 6 :: int]])
             (Some [10, 20, 30 :: int]) 2
           = Inr \<lparr>ds_X = [[1, 2], [3, 4], [5, 6]], ds_y = [10, 20, 30], ds_seq_len = 2\<rparr>"
    by (simp add: init_arrays)
  from len_windows [OF a b] show ?thesis by simp
qed

text \<open>
  The claim C7 (with more rows asked for than there are, \<open>length()\<close> fails instead of
  yielding a zero or negative length) does not hold: for two rows and \<open>seq_len = 3\<close>
  the constructor returns a dataset, \<^verbatim>\<open>__len__\<close> returns 0 and so does \<^verbatim>\<open>len\<close>.
\<close>

theorem len_zero_counterexample:
  "TimeseriesDataset_init id id (Some [[1], [2 :: int]]) (Some [10, 20 :: int]) 3
     = Inr \<lparr>ds_X = [[1], [2]], ds_y = [10, 20], ds_seq_len = 3\<rparr>
   \<and> TimeseriesDataset_len \<lparr>ds_X = [[1], [2 :: int]], ds_y = [10, 20 :: int], ds_seq_len = 3\<rparr>
     = 0
   \<and> builtin_len \<lparr>ds_X = [[1], [2 :: int]], ds_y = [10, 20 :: int], ds_seq_len = 3\<rparr>
     = Inr 0"
  by (simp add: init_arrays TimeseriesDataset_len_def builtin_len_def sys_maxsize_def)

text \<open>
  C7, as amended. For a feature matrix of \<open>L\<close> rows and \<open>seq_len > L\<close> the dataset is
  still built, and \<^verbatim>\<open>__len__\<close> returns \<open>L - seq_len + 1\<close>, which is zero or negative.
  For \<open>seq_len = L + 1\<close> nothing fails: the length is 0, also through \<^verbatim>\<open>len\<close>. For
  \<open>seq_len \<ge> L + 2\<close> the result of \<^verbatim>\<open>__len__\<close> is negative and \<^verbatim>\<open>len\<close> fails with
  the interpreter's ValueError, so that no negative length comes out of \<^verbatim>\<open>len\<close>.
\<close>

theorem len_beyond_rows:
  assumes "int (length X) < s"
  shows "\<exists>d. TimeseriesDataset_init cx cy (Some X) (Some y) s = Inr d
           \<and> TimeseriesDataset_len d = int (length X) - s + 1
           \<and> TimeseriesDataset_len d \<le> 0
           \<and> (s = int (length X) + 1 \<longrightarrow>
                 TimeseriesDataset_len d = 0 \<and> builtin_len d = Inr 0)
           \<and> (int (length X) + 2 \<le> s \<longrightarrow>
                 TimeseriesDataset_len d < 0 \<and> builtin_len d = Inl ValueError)"
  using assms
  by (simp add: init_arrays TimeseriesDataset_len_def builtin_len_def sys_maxsize_def)

theorem len_beyond_rows_witness:
  "(\<exists>d. TimeseriesDataset_init id id (Some [[1], [2 :: int]]) (Some [10, 20 :: int]) 3 = Inr d
        \<and> TimeseriesDataset_len d = 0 \<and> builtin_len d = Inr 0)
   \<and> (\<exists>d. TimeseriesDataset_init id id (Some [[1], [2 :: int]]) (Some [10, 20 :: int]) 5 = Inr d
        \<and> TimeseriesDataset_len d = - 2 \<and> builtin_len d = Inl ValueError)"
  using len_beyond_rows [of "[[1], [2 :: int]]" 3 id id "[10, 20 :: int]"]
    len_beyond_rows [of "[[1], [2 :: int]]" 5 id id "[10, 20 :: int]"]
  by auto

text \<open>
  The claim C8 (every index outside \<open>[0, length())\<close> fails) does not hold below the
  interval: with three rows and \<open>seq_len = 1\<close> the length is 3, and index \<open>-1\<close> returns
  an empty window with the last target, as Python's negative indices do.
\<close>

theorem getitem_negative_index_counterexample:
  "TimeseriesDataset_len \<lparr>ds_X = [[1], [2], [3 :: int]], ds_y = [10, 20, 30 :: int], ds_seq_len = 1\<rparr>
     = 3
   \<and> TimeseriesDataset_getitem
       \<lparr>ds_X = [[1], [2], [3 :: int]], ds_y = [10, 20, 30 :: int], ds_seq_len = 1\<rparr> (- 1)
     = Inr ([], 30)"
  by (simp add: TimeseriesDataset_len_def TimeseriesDataset_getitem_def py_slice_def
      slice_bound_def py_index_def)

lemma getitem_result:
  "TimeseriesDataset_getitem d i =
     (case py_index (ds_y d) (i + ds_seq_len d - 1) of
        Inl e \<Rightarrow> Inl e
      | Inr v \<Rightarrow> Inr (py_slice (ds_X d) i (i + ds_seq_len d), v))"
  by (simp add: TimeseriesDataset_getitem_def)

lemma getitem_raises_iff:
  "TimeseriesDataset_getitem d i = Inl IndexError \<longleftrightarrow>
     i + ds_seq_len d - 1 < - int (length (ds_y d))
     \<or> int (length (ds_y d)) \<le> i + ds_seq_len d - 1"
  by (auto simp: getitem_result py_index_def Let_def split: sum.splits)

lemma getitem_returns_iff:
  "(\<exists>r. TimeseriesDataset_getitem d i = Inr r) \<longleftrightarrow>
     - int (length (ds_y d)) \<le> i + ds_seq_len d - 1
     \<and> i + ds_seq_len d - 1 < int (length (ds_y d))"
  by (auto simp: getitem_result py_index_def Let_def split: sum.splits)

text \<open>
  C8, as amended. Let \<open>X\<close> and \<open>y\<close> have \<open>L\<close> rows each. Every index \<open>i \<ge> length()\<close>
  fails with IndexError; for \<open>1 \<le> seq_len \<le> L\<close>, \<open>item(L - seq_len)\<close> returns and
  \<open>item(L - seq_len + 1)\<close> fails with IndexError. A negative index below \<open>length()\<close>
  fails with IndexError only when \<open>i + seq_len - 1 < -L\<close>; from \<open>-L \<le> i + seq_len - 1\<close>
  on it returns a pair.
\<close>

theorem getitem_out_of_range:
  assumes "length X = length y"
    and "TimeseriesDataset_init cx cy (Some X) (Some y) s = Inr d"
  shows "(TimeseriesDataset_len d \<le> i \<longrightarrow> TimeseriesDataset_getitem d i = Inl IndexError)
       \<and> (i < 0 \<and> i + s - 1 < - int (length X) \<longrightarrow>
            TimeseriesDataset_getitem d i = Inl IndexError)
       \<and> (i < 0 \<and> - int (length X) \<le> i + s - 1 \<and> i < TimeseriesDataset_len d \<longrightarrow>
            (\<exists>r. TimeseriesDataset_getitem d i = Inr r))
       \<and> (1 \<le> s \<and> s \<le> int (length X) \<longrightarrow>
            (\<exists>r. TimeseriesDataset_getitem d (int (length X) - s) = Inr r)
            \<and> TimeseriesDataset_getitem d (int (length X) - s + 1) = Inl IndexError)"
proof -
  from assms(2) have d: "d = \<lparr>ds_X = map cx X, ds_y = map cy y, ds_seq_len = s\<rparr>"
    by (simp add: init_arrays)
  have len: "TimeseriesDataset_len d = int (length X) - s + 1"
    by (simp add: d TimeseriesDataset_len_def)
  have ly: "int (length (ds_y d)) = int (length X)" and sl: "ds_seq_len d = s"
    using assms(1) by (simp_all add: d)
  show ?thesis
    unfolding getitem_raises_iff getitem_returns_iff len ly sl by auto
qed

theorem getitem_out_of_range_witness:
  "TimeseriesDataset_getitem
     \<lparr>ds_X = [[1], [2], [3 :: int]], ds_y = [10, 20, 30 :: int], ds_seq_len = 2\<rparr> 2
     = Inl IndexError
   \<and> TimeseriesDataset_getitem
     \<lparr>ds_X = [[1], [2], [3 :: int]], ds_y = [10, 20, 30 :: int], ds_seq_len = 2\<rparr> (- 5)
     = Inl IndexError
   \<and> (\<exists>r. TimeseriesDataset_getitem
     \<lparr>ds_X = [[1], [2], [3 :: int]], ds_y = [10, 20, 30 :: int], ds_seq_len = 2\<rparr> (- 2)
     = Inr r)
   \<and> (\<exists>r. TimeseriesDataset_getitem
     \<lparr>ds_X = [[1], [2], [3 :: int]], ds_y = [10, 20, 30 :: int], ds_seq_len = 2\<rparr> 1
     = Inr r)"
proof -
  let ?X = "[[1], [2], [3 :: int]]" and ?y = "[10, 20, 30 :: int]"
  let ?d = "\<lparr>ds_X = ?X, ds_y = ?y, ds_seq_len = 2\<rparr>"
  have a: "length ?X = length ?y" by simp
  have b: "TimeseriesDataset_init id id (Some ?X) (Some ?y) 2 = Inr ?d"
    by (simp add: init_arrays)
  have l: "TimeseriesDataset_len ?d = 2" by (simp add: TimeseriesDataset_len_def)
  from getitem_out_of_range [OF a b, of 2] getitem_out_of_range [OF a b, of "- 5"]
    getitem_out_of_range [OF a b, of "- 2"] l
  show ?thesis by simp
qed

section \<open>The data module: target, split, scaling\<close>

lemma ffill_from_all_present:
  "ffill_from prev (map Some xs @ [None]) =
     map Some xs @ [if xs = [] then prev else Some (last xs)]"
  by (induction xs arbitrary: prev) auto

lemma shift_back_one:
  "xs \<noteq> [] \<Longrightarrow> Series_shift (map Some xs) (- 1) = map Some (tl xs) @ [None]"
  by (cases xs) (simp_all add: Series_shift_def)

lemma shift_ffill:
  assumes "2 \<le> length deaths"
  shows "Series_ffill (Series_shift (map Some deaths) (- 1)) = map Some (tl deaths @ [last deaths])"
proof -
  from assms have ne: "deaths \<noteq> []" and ne': "tl deaths \<noteq> []"
    by (cases deaths; cases "tl deaths"; auto)+
  then have "last (tl deaths) = last deaths" by (simp add: last_tl)
  with ne ne' show ?thesis
    by (simp add: Series_ffill_def shift_back_one ffill_from_all_present)
qed

text \<open>
  C5. The target vector is the \<^verbatim>\<open>Deaths\<close> column moved one row back: the target of row
  \<open>i\<close> is the deaths value of row \<open>i + 1\<close>, and the gap this leaves in the last row is
  filled with the value before it, which is the deaths value of the last row. (The
  cleaned table has no missing cell; a table of at least two rows has a value to carry
  forward.) For the deaths sequence \<open>[10, 12, 15, 15]\<close> the target vector is
  \<open>[12, 15, 15, 15]\<close>.
\<close>

theorem target_shift_ffill:
  assumes "getitem_column X ''Deaths'' = Inr deaths" and "2 \<le> length deaths"
  shows "(\<exists>y. derive_target X = Inr y
           \<and> length y = length deaths
           \<and> (\<forall>i. i + 1 < length deaths \<longrightarrow> y ! i = Some (deaths ! (i + 1)))
           \<and> y ! (length deaths - 1) = Some (deaths ! (length deaths - 1))
           \<and> y ! (length deaths - 1) = y ! (length deaths - 2))
       \<and> derive_target \<lparr>df_columns = [''Confirmed'', ''Deaths''],
           df_rows = [[100, 10], [110, 12], [130, 15], [140, 15 :: int]]\<rparr>
         = Inr [Some 12, Some 15, Some 15, Some 15]"
proof -
  let ?y = "map Some (tl deaths @ [last deaths])"
  from assms(2) have ne: "deaths \<noteq> []" by auto
  have y: "derive_target X = Inr ?y"
    using assms by (simp add: derive_target_def shift_ffill)
  have len: "length ?y = length deaths" using ne by simp
  have nth: "?y ! i = Some (deaths ! (i + 1))" if "i + 1 < length deaths" for i
  proof -
    from that have "i < length (tl deaths)" by simp
    then show ?thesis by (simp add: nth_append nth_tl)
  qed
  have lst: "?y ! (length deaths - 1) = Some (deaths ! (length deaths - 1))"
    using ne by (simp add: nth_append last_conv_nth)
  have "?y ! (length deaths - 2) = Some (deaths ! (length deaths - 2 + 1))"
    using assms(2) by (intro nth) linarith
  also have "length deaths - 2 + 1 = length deaths - 1" using assms(2) by linarith
  finally have prev: "?y ! (length deaths - 1) = ?y ! (length deaths - 2)"
    using lst by simp
  from y len nth lst prev
  have general: "\<exists>y. derive_target X = Inr y
           \<and> length y = length deaths
           \<and> (\<forall>i. i + 1 < length deaths \<longrightarrow> y ! i = Some (deaths ! (i + 1)))
           \<and> y ! (length deaths - 1) = Some (deaths ! (length deaths - 1))
           \<and> y ! (length deaths - 1) = y ! (length deaths - 2)"
    by blast
  have example: "derive_target \<lparr>df_columns = [''Confirmed'', ''Deaths''],
           df_rows = [[100, 10], [110, 12], [130, 15], [140, 15 :: int]]\<rparr>
         = Inr [Some 12, Some 15, Some 15, Some 15]"
    by (simp add: derive_target_def getitem_column_def Series_shift_def Series_ffill_def)
  from general example show ?thesis by (rule conjI)
qed

theorem target_shift_ffill_witness:
  "\<exists>y. derive_target \<lparr>df_columns = [''Deaths'', ''Confirmed''],
         df_rows = [[1, 50], [4, 60], [9, 70 :: int]]\<rparr> = Inr y
       \<and> length y = 3 \<and> y ! 0 = Some 4 \<and> y ! 1 = Some 9 \<and> y ! 2 = Some 9"
proof -
  let ?X = "\<lparr>df_columns = [''Deaths'', ''Confirmed''],
     df_rows = [[1, 50], [4, 60], [9, 70 :: int]]\<rparr>"
  have a: "getitem_column ?X ''Deaths'' = Inr [1, 4, 9]"
    by (simp add: getitem_column_def)
  have b: "2 \<le> length [1, 4, 9 :: int]" by simp
  from target_shift_ffill [OF a b] obtain y where
    y: "derive_target ?X = Inr y" and l: "length y = length [1, 4, 9 :: int]"
    and n: "\<And>i. i + 1 < length [1, 4, 9 :: int] \<Longrightarrow> y ! i = Some ([1, 4, 9] ! (i + 1))"
    and e: "y ! (length [1, 4, 9 :: int] - 1) = Some ([1, 4, 9] ! (length [1, 4, 9 :: int] - 1))"
    by blast
  from n [of 0] n [of 1] have "y ! 0 = Some 4" and "y ! 1 = Some 9" by simp_all
  with y l e show ?thesis by (simp add: numeral_2_eq_2)
qed

lemma n_test_tenth: "nat \<lceil>(1 / 10 :: rat) * of_nat n\<rceil> = (n + 9) div 10"
  by linarith

lemma n_test_twentieth: "nat \<lceil>(1 / 20 :: rat) * of_nat n\<rceil> = (n + 19) div 20"
  by linarith

lemma train_test_split_Inr:
  assumes "train_test_split X y ts = Inr (a, b, c, d)"
  shows "a @ b = X" and "c @ d = y" and "length c = length a" and "length d = length b"
    and "length b = nat \<lceil>ts * of_nat (length X)\<rceil>" and "a \<noteq> []"
    and "a = take (length X - nat \<lceil>ts * of_nat (length X)\<rceil>) X"
proof -
  let ?k = "length X - nat \<lceil>ts * of_nat (length X)\<rceil>"
  from assms have ly: "length X = length y" and k: "?k \<noteq> 0"
    and parts: "a = take ?k X" "b = drop ?k X" "c = take ?k y" "d = drop ?k y"
    by (auto simp: train_test_split_def Let_def split: if_splits)
  from parts show "a @ b = X" and "c @ d = y" by simp_all
  from parts ly show "length c = length a" and "length d = length b" by simp_all
  from k parts show "length b = nat \<lceil>ts * of_nat (length X)\<rceil>" by simp
  from k parts show "a \<noteq> []" by auto
  from parts show "a = take ?k X" by simp
qed

lemma train_test_split_succeeds:
  assumes "length X = length y" and "0 < ts" and "ts < 1"
    and "nat \<lceil>ts * of_nat (length X)\<rceil> < length X"
  shows "\<exists>r. train_test_split X y ts = Inr r"
  using assms by (simp add: train_test_split_def Let_def)

lemma chronological_split_Inr:
  assumes "chronological_split X y = Inr sp"
  obtains X_cv y_cv where
    "train_test_split X y (1 / 10) = Inr (X_cv, sp_X_test sp, y_cv, sp_y_test sp)"
    and "train_test_split X_cv y_cv (1 / 20) =
           Inr (sp_X_train sp, sp_X_val sp, sp_y_train sp, sp_y_val sp)"
  using assms
  by (auto simp: chronological_split_def split: sum.splits prod.splits)

lemma chronological_split_succeeds:
  assumes "length X = length y" and "3 \<le> length X"
  shows "\<exists>sp. chronological_split X y = Inr sp"
proof -
  from assms(2) have "nat \<lceil>(1 / 10 :: rat) * of_nat (length X)\<rceil> < length X"
    unfolding n_test_tenth by linarith
  with assms(1) obtain X_cv X_te y_cv y_te
    where s1: "train_test_split X y (1 / 10) = Inr (X_cv, X_te, y_cv, y_te)"
    using train_test_split_succeeds [of X y "1 / 10"] by auto
  note f = train_test_split_Inr [OF s1]
  from f(1) f(5) have "length X_cv = length X - (length X + 9) div 10"
    unfolding n_test_tenth by (metis add_diff_cancel_right' length_append)
  with assms(2) have "2 \<le> length X_cv" by linarith
  then have "nat \<lceil>(1 / 20 :: rat) * of_nat (length X_cv)\<rceil> < length X_cv"
    unfolding n_test_twentieth by linarith
  with f(3) obtain r where "train_test_split X_cv y_cv (1 / 20) = Inr r"
    using train_test_split_succeeds [of X_cv y_cv "1 / 20"] by auto
  with s1 show ?thesis
    by (cases r) (simp add: chronological_split_def)
qed

lemma chronological_split_parts:
  assumes "chronological_split X y = Inr sp"
  shows "sp_X_train sp @ sp_X_val sp @ sp_X_test sp = X"
    and "sp_y_train sp @ sp_y_val sp @ sp_y_test sp = y"
    and "length (sp_X_test sp) = (length X + 9) div 10"
    and "length (sp_X_val sp) = (length X - length (sp_X_test sp) + 19) div 20"
    and "sp_X_train sp \<noteq> []"
    and "length (sp_y_train sp) = length (sp_X_train sp)"
    and "length (sp_y_val sp) = length (sp_X_val sp)"
    and "length (sp_y_test sp) = length (sp_X_test sp)"
proof -
  from assms obtain X_cv y_cv where
    s1: "train_test_split X y (1 / 10) = Inr (X_cv, sp_X_test sp, y_cv, sp_y_test sp)"
    and s2: "train_test_split X_cv y_cv (1 / 20) =
           Inr (sp_X_train sp, sp_X_val sp, sp_y_train sp, sp_y_val sp)"
    by (rule chronological_split_Inr)
  note f = train_test_split_Inr [OF s1] and g = train_test_split_Inr [OF s2]
  from f(1) [symmetric] g(1) [symmetric]
  show "sp_X_train sp @ sp_X_val sp @ sp_X_test sp = X" by simp
  from f(2) [symmetric] g(2) [symmetric]
  show "sp_y_train sp @ sp_y_val sp @ sp_y_test sp = y" by simp
  from f(5) show "length (sp_X_test sp) = (length X + 9) div 10"
    by (simp only: n_test_tenth)
  from f(1) have "length X_cv = length X - length (sp_X_test sp)"
    by (metis add_diff_cancel_right' length_append)
  with g(5) show "length (sp_X_val sp) = (length X - length (sp_X_test sp) + 19) div 20"
    by (simp only: n_test_twentieth)
  from g(6) show "sp_X_train sp \<noteq> []" .
  from g(3) show "length (sp_y_train sp) = length (sp_X_train sp)" .
  from g(4) show "length (sp_y_val sp) = length (sp_X_val sp)" .
  from f(4) show "length (sp_y_test sp) = length (sp_X_test sp)" .
qed

text \<open>
  C3. The chronological split keeps the order and does not overlap: the train rows, then
  the validation rows, then the test rows are the cleaned rows in their order (and so
  for the targets). The test part is the last tenth of the rows, rounded up; the
  validation part is the last twentieth, rounded up, of the rows before the test part;
  the train part is what is left, and is not empty. The split returns for every table
  of three or more rows. Where no row occurs twice the three parts are pairwise disjoint.
\<close>

theorem split_chronological:
  "(length X = length y \<and> 3 \<le> length X \<longrightarrow> (\<exists>sp. chronological_split X y = Inr sp))
   \<and> (\<forall>sp. chronological_split X y = Inr sp \<longrightarrow>
         sp_X_train sp @ sp_X_val sp @ sp_X_test sp = X
       \<and> sp_y_train sp @ sp_y_val sp @ sp_y_test sp = y
       \<and> length (sp_X_test sp) = (length X + 9) div 10
       \<and> length (sp_X_val sp) = (length X - length (sp_X_test sp) + 19) div 20
       \<and> sp_X_train sp \<noteq> []
       \<and> length (sp_y_train sp) = length (sp_X_train sp)
       \<and> length (sp_y_val sp) = length (sp_X_val sp)
       \<and> length (sp_y_test sp) = length (sp_X_test sp)
       \<and> (distinct X \<longrightarrow>
            set (sp_X_train sp) \<inter> set (sp_X_val sp) = {}
          \<and> set (sp_X_train sp) \<inter> set (sp_X_test sp) = {}
          \<and> set (sp_X_val sp) \<inter> set (sp_X_test sp) = {}))"
proof (intro conjI impI allI)
  assume "length X = length y \<and> 3 \<le> length X"
  then show "\<exists>sp. chronological_split X y = Inr sp"
    by (simp add: chronological_split_succeeds)
next
  fix sp assume sp: "chronological_split X y = Inr sp"
  note p = chronological_split_parts [OF sp]
  from p(1) show "sp_X_train sp @ sp_X_val sp @ sp_X_test sp = X" .
  from p(2) show "sp_y_train sp @ sp_y_val sp @ sp_y_test sp = y" .
  from p(3) show "length (sp_X_test sp) = (length X + 9) div 10" .
  from p(4) show "length (sp_X_val sp) = (length X - length (sp_X_test sp) + 19) div 20" .
  from p(5) show "sp_X_train sp \<noteq> []" .
  from p(6) show "length (sp_y_train sp) = length (sp_X_train sp)" .
  from p(7) show "length (sp_y_val sp) = length (sp_X_val sp)" .
  from p(8) show "length (sp_y_test sp) = length (sp_X_test sp)" .
  {
    assume "distinct X"
    with p(1) have d: "distinct (sp_X_train sp @ sp_X_val sp @ sp_X_test sp)" by simp
    from d show "set (sp_X_train sp) \<inter> set (sp_X_val sp) = {}" by auto
    from d show "set (sp_X_train sp) \<inter> set (sp_X_test sp) = {}" by auto
    from d show "set (sp_X_val sp) \<inter> set (sp_X_test sp) = {}" by auto
  }
qed

theorem split_chronological_witness:
  "\<exists>sp. chronological_split [[1, 10], [2, 12], [3, 15 :: int]] [12, 15, 15 :: int] = Inr sp
     \<and> sp_X_train sp @ sp_X_val sp @ sp_X_test sp = [[1, 10], [2, 12], [3, 15]]
     \<and> length (sp_X_test sp) = 1 \<and> length (sp_X_val sp) = 1
     \<and> set (sp_X_train sp) \<inter> set (sp_X_test sp) = {}"
  using split_chronological [of "[[1, 10], [2, 12], [3, 15 :: int]]" "[12, 15, 15 :: int]"]
  by auto

section \<open>The data module: what a call of setup assigns\<close>

lemma assign_fit_skip:
  "stage \<noteq> Some ''fit'' \<Longrightarrow> stage \<noteq> None \<Longrightarrow> assign_fit sc p sp stage s = (s, None)"
  by (cases stage) (simp_all add: assign_fit_def)

lemma assign_test_skip:
  "stage \<noteq> Some ''test'' \<Longrightarrow> stage \<noteq> None \<Longrightarrow> assign_test sc p sp stage s = (s, None)"
  by (cases stage) (simp_all add: assign_test_def)

lemma assign_fit_returns:
  assumes "assign_fit sc p sp stage s = (s', None)" and "stage = Some ''fit'' \<or> stage = None"
  shows "\<exists>a b. scaler_transform sc p (sp_X_train sp) = Inr a
           \<and> scaler_transform sc p (sp_X_val sp) = Inr b
           \<and> s' = s\<lparr>X_train := Some a, y_train := Some (reshape_column (sp_y_train sp)),
                     X_val := Some b, y_val := Some (reshape_column (sp_y_val sp))\<rparr>"
  using assms by (auto simp: assign_fit_def Let_def split: sum.splits)

lemma assign_test_returns:
  assumes "assign_test sc p sp stage s = (s', None)" and "stage = Some ''test'' \<or> stage = None"
  shows "\<exists>c. scaler_transform sc p (sp_X_test sp) = Inr c
           \<and> s' = s\<lparr>X_test := Some c,
                     y_test := Assigned (Some (reshape_column (sp_y_test sp)))\<rparr>"
  using assms by (auto simp: assign_test_def split: sum.splits)

lemma assign_fit_frame:
  "X_test (fst (assign_fit sc p sp stage s)) = X_test s"
  "y_test (fst (assign_fit sc p sp stage s)) = y_test s"
  by (simp_all add: assign_fit_def Let_def split: sum.splits)

lemma assign_test_frame:
  "X_train (fst (assign_test sc p sp stage s)) = X_train s"
  "y_train (fst (assign_test sc p sp stage s)) = y_train s"
  "X_val (fst (assign_test sc p sp stage s)) = X_val s"
  "y_val (fst (assign_test sc p sp stage s)) = y_val s"
  by (simp_all add: assign_test_def split: sum.splits)

text \<open>A call that returns without running the pipeline, and a call that runs it.\<close>

lemma setup_module_present:
  assumes "(stage = Some ''fit'' \<and> X_train self \<noteq> None)
         \<or> (stage = Some ''test'' \<and> X_test self \<noteq> None)
         \<or> (stage = None \<and> X_train self \<noteq> None \<and> X_test self \<noteq> None)"
  shows "setup_module sc table stage self = (self, None)"
  using assms by (auto simp: setup_module_def)

lemma setup_module_ran:
  assumes "setup_module sc table stage self = (self', None)"
    and "\<not> (stage = Some ''fit'' \<and> X_train self \<noteq> None)"
    and "\<not> (stage = Some ''test'' \<and> X_test self \<noteq> None)"
    and "\<not> (stage = None \<and> X_train self \<noteq> None \<and> X_test self \<noteq> None)"
  shows "\<exists>df y sp p self2. table = Inr df
           \<and> derive_target (dropna df) = Inr y
           \<and> split_and_fit sc (df_rows (dropna df)) y = Inr (sp, p)
           \<and> assign_fit sc p sp stage (self\<lparr>columns := Some (df_columns (dropna df))\<rparr>)
               = (self2, None)
           \<and> assign_test sc p sp stage self2 = (self', None)"
proof -
  from assms(2-4) have run: "setup_module sc table stage self =
    (case table of
           Inl e \<Rightarrow> (self, Some e)
         | Inr df \<Rightarrow>
             let X = dropna df
             in (case derive_target X of
                   Inl e \<Rightarrow> (self, Some e)
                 | Inr y \<Rightarrow>
                     let self1 = self\<lparr>columns := Some (df_columns X)\<rparr>
                     in (case split_and_fit sc (df_rows X) y of
                           Inl e \<Rightarrow> (self1, Some e)
                         | Inr (sp, p) \<Rightarrow>
                             (case assign_fit sc p sp stage self1 of
                                (self2, Some e) \<Rightarrow> (self2, Some e)
                              | (self2, None) \<Rightarrow> assign_test sc p sp stage self2))))"
    unfolding setup_module_def by (simp only: if_False)
  from assms(1) show ?thesis
    unfolding run by (auto simp: Let_def split: sum.splits prod.splits option.splits)
qed

lemma setup_module_returns_present:
  assumes "setup_module sc table stage self = (self', None)"
  shows "(stage = Some ''fit'' \<or> stage = None \<longrightarrow> X_train self' \<noteq> None)
       \<and> (stage = Some ''test'' \<or> stage = None \<longrightarrow> X_test self' \<noteq> None)"
proof (cases "(stage = Some ''fit'' \<and> X_train self \<noteq> None)
         \<or> (stage = Some ''test'' \<and> X_test self \<noteq> None)
         \<or> (stage = None \<and> X_train self \<noteq> None \<and> X_test self \<noteq> None)")
  case True
  then have "setup_module sc table stage self = (self, None)" by (rule setup_module_present)
  with assms have "self' = self" by simp
  with True show ?thesis by auto
next
  case False
  then have n: "\<not> (stage = Some ''fit'' \<and> X_train self \<noteq> None)"
    "\<not> (stage = Some ''test'' \<and> X_test self \<noteq> None)"
    "\<not> (stage = None \<and> X_train self \<noteq> None \<and> X_test self \<noteq> None)"
    by blast+
  from setup_module_ran [OF assms n] obtain df sp p self2 where
    "table = Inr df" and f: "assign_fit sc p sp stage (self\<lparr>columns := Some (df_columns (dropna df))\<rparr>) = (self2, None)"
    and t: "assign_test sc p sp stage self2 = (self', None)"
    by blast
  have a: "X_train self' \<noteq> None" if "stage = Some ''fit'' \<or> stage = None"
  proof -
    from assign_fit_returns [OF f that] have "X_train self2 \<noteq> None" by auto
    moreover from t have "X_train self' = X_train self2"
      using assign_test_frame(1) [of sc p sp stage self2] by simp
    ultimately show ?thesis by simp
  qed
  have b: "X_test self' \<noteq> None" if "stage = Some ''test'' \<or> stage = None"
    using assign_test_returns [OF t that] by auto
  from a b show ?thesis by blast
qed

lemma setup_module_keeps_train:
  assumes "stage \<noteq> Some ''fit''" and "stage \<noteq> None"
  shows "X_train (fst (setup_module sc table stage s)) = X_train s"
    and "X_val (fst (setup_module sc table stage s)) = X_val s"
  using assms
  by (auto simp: setup_module_def Let_def assign_fit_skip assign_test_frame [of sc _ _ stage, unfolded fst_conv]
      assign_test_def split: sum.splits prod.splits option.splits)

lemma setup_module_keeps_test:
  assumes "stage \<noteq> Some ''test''" and "stage \<noteq> None"
  shows "X_test (fst (setup_module sc table stage s)) = X_test s"
    and "y_test (fst (setup_module sc table stage s)) = y_test s"
  using assms
  by (auto simp: setup_module_def Let_def assign_test_skip assign_fit_def
      split: sum.splits prod.splits option.splits)

text \<open>
  C6. Once the data of a stage is there (stage \<^verbatim>\<open>'fit'\<close> with train data, stage
  \<^verbatim>\<open>'test'\<close> with test data, no stage with both), a call of \<^verbatim>\<open>setup\<close> for that stage
  returns at once and leaves the module as it is, whatever the table on the file system
  is. So after a call for one of these stages has returned, a second call for the same
  stage changes nothing, even with another table or scaler: two runs of the whole
  pipeline with no stage leave the same arrays.
\<close>

theorem setup_idempotent:
  "((stage = Some ''fit'' \<and> X_train self \<noteq> None)
      \<or> (stage = Some ''test'' \<and> X_test self \<noteq> None)
      \<or> (stage = None \<and> X_train self \<noteq> None \<and> X_test self \<noteq> None)
     \<longrightarrow> setup_module sc table stage self = (self, None))
   \<and> ((stage = Some ''fit'' \<or> stage = Some ''test'' \<or> stage = None)
        \<and> setup_module sc table stage self = (self', None)
     \<longrightarrow> setup_module sc' table' stage self' = (self', None))"
proof (intro conjI impI)
  assume "(stage = Some ''fit'' \<and> X_train self \<noteq> None)
      \<or> (stage = Some ''test'' \<and> X_test self \<noteq> None)
      \<or> (stage = None \<and> X_train self \<noteq> None \<and> X_test self \<noteq> None)"
  then show "setup_module sc table stage self = (self, None)"
    by (rule setup_module_present)
next
  assume a: "(stage = Some ''fit'' \<or> stage = Some ''test'' \<or> stage = None)
        \<and> setup_module sc table stage self = (self', None)"
  then have "(stage = Some ''fit'' \<or> stage = None \<longrightarrow> X_train self' \<noteq> None)
       \<and> (stage = Some ''test'' \<or> stage = None \<longrightarrow> X_test self' \<noteq> None)"
    by (intro setup_module_returns_present [of sc table stage self self']) simp
  with a have "(stage = Some ''fit'' \<and> X_train self' \<noteq> None)
      \<or> (stage = Some ''test'' \<and> X_test self' \<noteq> None)
      \<or> (stage = None \<and> X_train self' \<noteq> None \<and> X_test self' \<noteq> None)"
    by blast
  then show "setup_module sc' table' stage self' = (self', None)"
    by (rule setup_module_present)
qed

text \<open>A new module, and the pipeline run on a table of five rows, one with a missing cell.\<close>

lemma init_fields:
  "X_train (PowerConsumptionDataModule_init sl bs nw) = None"
  "y_train (PowerConsumptionDataModule_init sl bs nw) = None"
  "X_val (PowerConsumptionDataModule_init sl bs nw) = None"
  "y_val (PowerConsumptionDataModule_init sl bs nw) = None"
  "X_test (PowerConsumptionDataModule_init sl bs nw) = None"
  "y_test (PowerConsumptionDataModule_init sl bs nw) = Unassigned"
  by (simp_all add: PowerConsumptionDataModule_init_def)

lemma setup_example:
  "setup_module centring_scaler
     (Inr \<lparr>df_columns = [''Confirmed'', ''Deaths''],
           df_rows = [[Some 100, Some 10], [Some 110, Some 12], [None, Some 13],
                      [Some 130, Some 15], [Some 140, Some 15]]\<rparr>)
     None (PowerConsumptionDataModule_init 1 128 0)
   = (\<lparr>seq_len = 1, batch_size = 128, num_workers = 0,
       X_train = Some [[- 5, - 1], [5, 1]], y_train = Some [[Some 12], [Some 15]],
       X_val = Some [[25, 4]], y_val = Some [[Some 15]],
       X_test = Some [[35, 4]], y_test = Assigned (Some [[Some 15]]),
       columns = Some [''Confirmed'', ''Deaths''], preprocessing = None\<rparr>, None)"
  by code_simp

theorem setup_idempotent_witness:
  "setup_module centring_scaler (Inl FileNotFoundError) None
     \<lparr>seq_len = 1, batch_size = 128, num_workers = 0,
       X_train = Some [[- 5, - 1], [5, 1]], y_train = Some [[Some 12], [Some 15]],
       X_val = Some [[25, 4]], y_val = Some [[Some 15]],
       X_test = Some [[35, 4]], y_test = Assigned (Some [[Some 15]]),
       columns = Some [''Confirmed'', ''Deaths''], preprocessing = None\<rparr>
   = (\<lparr>seq_len = 1, batch_size = 128, num_workers = 0,
       X_train = Some [[- 5, - 1], [5, 1]], y_train = Some [[Some 12], [Some 15]],
       X_val = Some [[25, 4]], y_val = Some [[Some 15]],
       X_test = Some [[35, 4]], y_test = Assigned (Some [[Some 15]]),
       columns = Some [''Confirmed'', ''Deaths''], preprocessing = None\<rparr>, None)"
  using setup_idempotent [of None "PowerConsumptionDataModule_init 1 128 0" centring_scaler
      "Inr \<lparr>df_columns = [''Confirmed'', ''Deaths''],
           df_rows = [[Some 100, Some 10], [Some 110, Some 12], [None, Some 13],
                      [Some 130, Some 15], [Some 140, Some 15]]\<rparr>" _
      centring_scaler "Inl FileNotFoundError"] setup_example
  by simp

lemma chronological_split_train_length:
  assumes "chronological_split X y = Inr sp"
  shows "length (sp_X_train sp) =
           length X - (length X + 9) div 10
             - (length X - (length X + 9) div 10 + 19) div 20"
    and "3 \<le> length X" and "length y = length X"
proof -
  note p = chronological_split_parts [OF assms]
  from p(1) have n: "length X = length (sp_X_train sp) + length (sp_X_val sp) + length (sp_X_test sp)"
    by (metis length_append add.assoc)
  from n p(3,4) show "length (sp_X_train sp) =
           length X - (length X + 9) div 10
             - (length X - (length X + 9) div 10 + 19) div 20"
    by linarith
  from p(5) have tr: "1 \<le> length (sp_X_train sp)" by (cases "sp_X_train sp") simp_all
  show "3 \<le> length X"
  proof (rule ccontr)
    assume "\<not> 3 \<le> length X"
    then have "length X = 0 \<or> length X = 1 \<or> length X = 2" by linarith
    with n p(3,4) tr show False by auto
  qed
  from p(2) have "length y = length (sp_y_train sp) + length (sp_y_val sp) + length (sp_y_test sp)"
    by (metis length_append add.assoc)
  with n p(6,7,8) show "length y = length X" by simp
qed

lemma chronological_split_same_train:
  assumes "chronological_split X y = Inr sp"
    and "length X' = length X" and "length y' = length X'"
    and "take (length (sp_X_train sp)) X' = sp_X_train sp"
  shows "\<exists>sp'. chronological_split X' y' = Inr sp' \<and> sp_X_train sp' = sp_X_train sp"
proof -
  note l = chronological_split_train_length [OF assms(1)]
  from assms(2,3) l(2) obtain sp' where sp': "chronological_split X' y' = Inr sp'"
    using chronological_split_succeeds [of X' y'] by auto
  note l' = chronological_split_train_length [OF sp']
  from l(1) l'(1) assms(2) have len: "length (sp_X_train sp') = length (sp_X_train sp)"
    by simp
  from chronological_split_parts(1) [OF sp']
  have "take (length (sp_X_train sp')) X' = sp_X_train sp'"
    by (metis append_eq_conv_conj)
  with len assms(4) have "sp_X_train sp' = sp_X_train sp" by simp
  with sp' show ?thesis by blast
qed

lemma split_and_fit_Inr:
  "split_and_fit sc X y = Inr (sp, p) \<longleftrightarrow>
     chronological_split X y = Inr sp \<and> scaler_fit sc (sp_X_train sp) = Inr p"
  by (auto simp: split_and_fit_def split: sum.splits)

text \<open>
  C4. Let a call of \<^verbatim>\<open>setup\<close> run the pipeline on a table and return. The scaler was
  fitted on the train rows of the split and on nothing else: the fitted parameters are
  \<open>scaler_fit\<close> of the train rows, and any other cleaned table of the same length with
  the same train rows (whatever its validation rows, test rows and targets are) gives
  the same parameters. These same parameters transform the train and validation rows
  (stage \<^verbatim>\<open>'fit'\<close> or \<^verbatim>\<open>None\<close>) and the test rows (stage \<^verbatim>\<open>'test'\<close> or \<^verbatim>\<open>None\<close>).
  The stored targets are the parts of the derived target vector, each value in a row of
  its own, and no scaler is applied to them.
\<close>

theorem scaler_fitted_on_train_only:
  assumes "setup_module sc (Inr df) stage self = (self', None)"
    and "\<not> (stage = Some ''fit'' \<and> X_train self \<noteq> None)"
    and "\<not> (stage = Some ''test'' \<and> X_test self \<noteq> None)"
    and "\<not> (stage = None \<and> X_train self \<noteq> None \<and> X_test self \<noteq> None)"
  shows "\<exists>y sp p.
       derive_target (dropna df) = Inr y
     \<and> chronological_split (df_rows (dropna df)) y = Inr sp
     \<and> scaler_fit sc (sp_X_train sp) = Inr p
     \<and> (stage = Some ''fit'' \<or> stage = None \<longrightarrow>
          (\<exists>a b. scaler_transform sc p (sp_X_train sp) = Inr a \<and> X_train self' = Some a
               \<and> scaler_transform sc p (sp_X_val sp) = Inr b \<and> X_val self' = Some b)
          \<and> y_train self' = Some (map (\<lambda>x. [x]) (sp_y_train sp))
          \<and> y_val self' = Some (map (\<lambda>x. [x]) (sp_y_val sp)))
     \<and> (stage = Some ''test'' \<or> stage = None \<longrightarrow>
          (\<exists>c. scaler_transform sc p (sp_X_test sp) = Inr c \<and> X_test self' = Some c)
          \<and> y_test self' = Assigned (Some (map (\<lambda>x. [x]) (sp_y_test sp))))
     \<and> sp_y_train sp @ sp_y_val sp @ sp_y_test sp = y
     \<and> (\<forall>X' y'. length X' = length (df_rows (dropna df)) \<and> length y' = length X'
             \<and> take (length (sp_X_train sp)) X' = sp_X_train sp
           \<longrightarrow> (\<exists>sp'. split_and_fit sc X' (y' :: 'a option list) = Inr (sp', p)
                  \<and> sp_X_train sp' = sp_X_train sp))"
proof -
  from setup_module_ran [OF assms] obtain y sp p self2 where
    y: "derive_target (dropna df) = Inr y"
    and sf: "split_and_fit sc (df_rows (dropna df)) y = Inr (sp, p)"
    and f: "assign_fit sc p sp stage (self\<lparr>columns := Some (df_columns (dropna df))\<rparr>)
               = (self2, None)"
    and t: "assign_test sc p sp stage self2 = (self', None)"
    by auto
  from sf have cs: "chronological_split (df_rows (dropna df)) y = Inr sp"
    and fit: "scaler_fit sc (sp_X_train sp) = Inr p"
    by (simp_all add: split_and_fit_Inr)
  have train: "(\<exists>a b. scaler_transform sc p (sp_X_train sp) = Inr a \<and> X_train self' = Some a
               \<and> scaler_transform sc p (sp_X_val sp) = Inr b \<and> X_val self' = Some b)
          \<and> y_train self' = Some (reshape_column (sp_y_train sp))
          \<and> y_val self' = Some (reshape_column (sp_y_val sp))"
    if st: "stage = Some ''fit'' \<or> stage = None"
  proof -
    from assign_fit_returns [OF f st] obtain a b where
      a: "scaler_transform sc p (sp_X_train sp) = Inr a"
      and b: "scaler_transform sc p (sp_X_val sp) = Inr b"
      and s2: "self2 = self\<lparr>columns := Some (df_columns (dropna df)),
                     X_train := Some a, y_train := Some (reshape_column (sp_y_train sp)),
                     X_val := Some b, y_val := Some (reshape_column (sp_y_val sp))\<rparr>"
      by auto
    from t assign_test_frame [of sc p sp stage self2]
    have "X_train self' = X_train self2" "y_train self' = y_train self2"
      "X_val self' = X_val self2" "y_val self' = y_val self2"
      by simp_all
    with s2 have "X_train self' = Some a" "X_val self' = Some b"
      "y_train self' = Some (reshape_column (sp_y_train sp))"
      "y_val self' = Some (reshape_column (sp_y_val sp))"
      by simp_all
    with a b show ?thesis by blast
  qed
  have test: "(\<exists>c. scaler_transform sc p (sp_X_test sp) = Inr c \<and> X_test self' = Some c)
          \<and> y_test self' = Assigned (Some (reshape_column (sp_y_test sp)))"
    if st: "stage = Some ''test'' \<or> stage = None"
    using assign_test_returns [OF t st] by auto
  have other: "\<exists>sp'. split_and_fit sc X' y' = Inr (sp', p) \<and> sp_X_train sp' = sp_X_train sp"
    if "length X' = length (df_rows (dropna df)) \<and> length y' = length X'
             \<and> take (length (sp_X_train sp)) X' = sp_X_train sp" for X' and y' :: "'a option list"
  proof -
    from that chronological_split_same_train [OF cs, of X' y'] obtain sp' where
      "chronological_split X' y' = Inr sp'" and "sp_X_train sp' = sp_X_train sp"
      by auto
    with fit show ?thesis by (auto simp: split_and_fit_Inr)
  qed
  from chronological_split_parts(2) [OF cs]
  have ycat: "sp_y_train sp @ sp_y_val sp @ sp_y_test sp = y" .
  from y cs fit train test ycat other show ?thesis
    unfolding reshape_column_def by blast
qed

theorem scaler_fitted_on_train_only_witness:
  "\<exists>sp p. chronological_split [[100, 10], [110, 12], [130, 15], [140, 15 :: rat]]
            [Some 12, Some 15, Some 15, Some (15 :: rat)] = Inr sp
     \<and> scaler_fit centring_scaler (sp_X_train sp) = Inr p
     \<and> scaler_transform centring_scaler p (sp_X_train sp) = Inr [[- 5, - 1], [5, 1]]
     \<and> scaler_transform centring_scaler p (sp_X_val sp) = Inr [[25, 4]]
     \<and> scaler_transform centring_scaler p (sp_X_test sp) = Inr [[35, 4]]
     \<and> map (\<lambda>x. [x]) (sp_y_train sp) = [[Some 12], [Some 15]]
     \<and> map (\<lambda>x. [x]) (sp_y_val sp) = [[Some 15]]
     \<and> map (\<lambda>x. [x]) (sp_y_test sp) = [[Some 15]]
     \<and> sp_y_train sp @ sp_y_val sp @ sp_y_test sp = [Some 12, Some 15, Some 15, Some 15]"
proof -
  let ?df = "\<lparr>df_columns = [''Confirmed'', ''Deaths''],
           df_rows = [[Some 100, Some 10], [Some 110, Some 12], [None, Some 13],
                      [Some 130, Some 15], [Some (140 :: rat), Some 15]]\<rparr>"
  have X: "df_rows (dropna ?df) = [[100, 10], [110, 12], [130, 15], [140, 15]]"
    by (simp add: dropna_def)
  have y: "derive_target (dropna ?df) = Inr [Some 12, Some 15, Some 15, Some 15]"
    by (simp add: dropna_def derive_target_def getitem_column_def Series_shift_def
        Series_ffill_def)
  have i: "X_train (PowerConsumptionDataModule_init 1 128 0 ::
             (rat, rat option) PowerConsumptionDataModule) = None"
    by (simp add: init_fields)
  from scaler_fitted_on_train_only [OF setup_example] i
  show ?thesis unfolding X y by fastforce
qed

section \<open>The dataloaders before setup\<close>

lemma setup_calls_keep_train:
  assumes "\<forall>c \<in> set cs. fst c \<noteq> Some ''fit'' \<and> fst c \<noteq> None"
  shows "X_train (setup_calls sc cs s) = X_train s \<and> X_val (setup_calls sc cs s) = X_val s"
  using assms
proof (induction cs arbitrary: s)
  case Nil
  show ?case by simp
next
  case (Cons c cs)
  obtain stage table where c: "c = (stage, table)" by (cases c)
  from Cons.prems c have st: "stage \<noteq> Some ''fit''" "stage \<noteq> None" by simp_all
  from Cons.prems have "\<forall>c \<in> set cs. fst c \<noteq> Some ''fit'' \<and> fst c \<noteq> None" by simp
  from Cons.IH [OF this, of "fst (setup_module sc table stage s)"]
  show ?case by (simp add: c setup_module_keeps_train [OF st])
qed

lemma setup_calls_keep_test:
  assumes "\<forall>c \<in> set cs. fst c \<noteq> Some ''test'' \<and> fst c \<noteq> None"
  shows "X_test (setup_calls sc cs s) = X_test s \<and> y_test (setup_calls sc cs s) = y_test s"
  using assms
proof (induction cs arbitrary: s)
  case Nil
  show ?case by simp
next
  case (Cons c cs)
  obtain stage table where c: "c = (stage, table)" by (cases c)
  from Cons.prems c have st: "stage \<noteq> Some ''test''" "stage \<noteq> None" by simp_all
  from Cons.prems have "\<forall>c \<in> set cs. fst c \<noteq> Some ''test'' \<and> fst c \<noteq> None" by simp
  from Cons.IH [OF this, of "fst (setup_module sc table stage s)"]
  show ?case by (simp add: c setup_module_keeps_test [OF st])
qed

lemma train_dataloader_None:
  "X_train self = None \<Longrightarrow> train_dataloader cx cy self = Inl RuntimeError"
  by (simp add: train_dataloader_def TimeseriesDataset_init_def torch_tensor_float_def)

lemma val_dataloader_None:
  "X_val self = None \<Longrightarrow> val_dataloader cx cy self = Inl RuntimeError"
  by (simp add: val_dataloader_def TimeseriesDataset_init_def torch_tensor_float_def)

lemma test_dataloader_Unassigned:
  "y_test self = Unassigned \<Longrightarrow> test_dataloader cx cy self = Inl AttributeError"
  by (simp add: test_dataloader_def)

lemma test_dataloader_None:
  "X_test self = None \<Longrightarrow> \<exists>e. test_dataloader cx cy self = Inl e"
  by (simp add: test_dataloader_def TimeseriesDataset_init_def torch_tensor_float_def
      split: attribute.splits)

text \<open>
  C9. A dataloader asked for before the data of its stage is there fails and returns no
  loader. With \<^verbatim>\<open>X_train\<close> (or \<^verbatim>\<open>X_val\<close>) still \<^verbatim>\<open>None\<close> the train (validation)
  loader fails in the tensor library with RuntimeError; with \<^verbatim>\<open>y_test\<close> unassigned the
  test loader fails with AttributeError, and with \<^verbatim>\<open>X_test\<close> still \<^verbatim>\<open>None\<close> it fails
  too. In particular this is so after any calls of \<^verbatim>\<open>setup\<close> on a new module of which
  none had the matching stage: the loader does not run \<^verbatim>\<open>setup\<close> itself, and the calls
  for other stages do not stand in for it. (The code has no exception named
  NotInitialized; these two are the failures it has.)
\<close>

theorem dataloader_before_setup:
  "(X_train self = None \<longrightarrow> train_dataloader cx cy self = Inl RuntimeError)
   \<and> (X_val self = None \<longrightarrow> val_dataloader cx cy self = Inl RuntimeError)
   \<and> (y_test self = Unassigned \<longrightarrow> test_dataloader cx cy self = Inl AttributeError)
   \<and> (X_test self = None \<longrightarrow> (\<exists>e. test_dataloader cx cy self = Inl e))
   \<and> ((\<forall>c \<in> set cs. fst c \<noteq> Some ''fit'' \<and> fst c \<noteq> None) \<longrightarrow>
         train_dataloader cx cy (setup_calls sc cs (PowerConsumptionDataModule_init sl bs nw))
           = Inl RuntimeError
       \<and> val_dataloader cx cy (setup_calls sc cs (PowerConsumptionDataModule_init sl bs nw))
           = Inl RuntimeError)
   \<and> ((\<forall>c \<in> set cs. fst c \<noteq> Some ''test'' \<and> fst c \<noteq> None) \<longrightarrow>
         test_dataloader cx cy (setup_calls sc cs (PowerConsumptionDataModule_init sl bs nw))
           = Inl AttributeError)"
proof (intro conjI impI)
  assume "X_train self = None"
  then show "train_dataloader cx cy self = Inl RuntimeError" by (rule train_dataloader_None)
next
  assume "X_val self = None"
  then show "val_dataloader cx cy self = Inl RuntimeError" by (rule val_dataloader_None)
next
  assume "y_test self = Unassigned"
  then show "test_dataloader cx cy self = Inl AttributeError"
    by (rule test_dataloader_Unassigned)
next
  assume "X_test self = None"
  then show "\<exists>e. test_dataloader cx cy self = Inl e" by (rule test_dataloader_None)
next
  let ?m = "setup_calls sc cs (PowerConsumptionDataModule_init sl bs nw)"
  assume "\<forall>c \<in> set cs. fst c \<noteq> Some ''fit'' \<and> fst c \<noteq> None"
  then have "X_train ?m = None" and "X_val ?m = None"
    by (simp_all add: setup_calls_keep_train init_fields)
  then show "train_dataloader cx cy ?m = Inl RuntimeError"
    and "val_dataloader cx cy ?m = Inl RuntimeError"
    by (simp_all add: train_dataloader_None val_dataloader_None)
next
  let ?m = "setup_calls sc cs (PowerConsumptionDataModule_init sl bs nw)"
  assume "\<forall>c \<in> set cs. fst c \<noteq> Some ''test'' \<and> fst c \<noteq> None"
  then have "y_test ?m = Unassigned"
    by (simp add: setup_calls_keep_test init_fields)
  then show "test_dataloader cx cy ?m = Inl AttributeError"
    by (rule test_dataloader_Unassigned)
qed

theorem dataloader_before_setup_witness:
  "train_dataloader id id
     (setup_calls centring_scaler
        [(Some ''test'', Inr \<lparr>df_columns = [''Confirmed'', ''Deaths''],
            df_rows = [[Some 100, Some 10], [Some 110, Some 12], [Some 130, Some 15]]\<rparr>)]
        (PowerConsumptionDataModule_init 1 128 0)) = Inl RuntimeError
   \<and> test_dataloader id id
     (setup_calls centring_scaler
        [(Some ''fit'', Inr \<lparr>df_columns = [''Confirmed'', ''Deaths''],
            df_rows = [[Some 100, Some 10], [Some 110, Some 12], [Some 130, Some 15]]\<rparr>)]
        (PowerConsumptionDataModule_init 1 128 0)) = Inl AttributeError
   \<and> val_dataloader id id
       (PowerConsumptionDataModule_init 1 128 0 :: (rat, rat option) PowerConsumptionDataModule)
     = Inl RuntimeError"
  using dataloader_before_setup [of _ id id
      "[(Some ''test'', Inr \<lparr>df_columns = [''Confirmed'', ''Deaths''],
            df_rows = [[Some 100, Some 10], [Some 110, Some 12], [Some 130, Some 15]]\<rparr>)]"
      centring_scaler 1 128 0]
    dataloader_before_setup [of _ id id
      "[(Some ''fit'', Inr \<lparr>df_columns = [''Confirmed'', ''Deaths''],
            df_rows = [[Some 100, Some 10], [Some 110, Some 12], [Some 130, Some 15]]\<rparr>)]"
      centring_scaler 1 128 0]
    dataloader_before_setup [of "PowerConsumptionDataModule_init 1 128 0" id id "[]"
      centring_scaler 1 128 0]
  by (simp add: init_fields)

text \<open>
  C10. On a new module \<^verbatim>\<open>X_train\<close>, \<^verbatim>\<open>y_train\<close>, \<^verbatim>\<open>X_val\<close>, \<^verbatim>\<open>y_val\<close> and
  \<^verbatim>\<open>X_test\<close> are \<^verbatim>\<open>None\<close>, and \<^verbatim>\<open>y_test\<close> is not assigned (which is not the same
  as holding \<^verbatim>\<open>None\<close>). It stays unassigned through any calls of \<^verbatim>\<open>setup\<close> whose
  stage is neither \<^verbatim>\<open>'test'\<close> nor \<^verbatim>\<open>None\<close>, and until then \<^verbatim>\<open>test_dataloader\<close>, the
  one method that reads it, fails with AttributeError.
\<close>

theorem y_test_never_initialised:
  assumes "m0 = PowerConsumptionDataModule_init sl bs nw"
  shows "X_train m0 = None \<and> y_train m0 = None \<and> X_val m0 = None \<and> y_val m0 = None
       \<and> X_test m0 = None
       \<and> y_test m0 = Unassigned \<and> y_test m0 \<noteq> Assigned None
       \<and> test_dataloader cx cy m0 = Inl AttributeError
       \<and> ((\<forall>c \<in> set cs. fst c \<noteq> Some ''test'' \<and> fst c \<noteq> None) \<longrightarrow>
             y_test (setup_calls sc cs m0) = Unassigned
           \<and> test_dataloader cx cy (setup_calls sc cs m0) = Inl AttributeError)"
proof -
  have "y_test (setup_calls sc cs m0) = Unassigned
       \<and> test_dataloader cx cy (setup_calls sc cs m0) = Inl AttributeError"
    if "\<forall>c \<in> set cs. fst c \<noteq> Some ''test'' \<and> fst c \<noteq> None"
  proof -
    from that have "y_test (setup_calls sc cs m0) = Unassigned"
      by (simp add: setup_calls_keep_test assms init_fields)
    then show ?thesis by (simp add: test_dataloader_Unassigned)
  qed
  then show ?thesis by (simp add: assms init_fields test_dataloader_Unassigned)
qed

theorem y_test_never_initialised_witness:
  "y_test (setup_calls centring_scaler
        [(Some ''fit'', Inr \<lparr>df_columns = [''Confirmed'', ''Deaths''],
            df_rows = [[Some 100, Some 10], [Some 110, Some 12], [Some 130, Some 15]]\<rparr>),
         (Some ''fit'', Inl FileNotFoundError)]
        (PowerConsumptionDataModule_init 3 16 0)) = Unassigned
   \<and> test_dataloader id id (setup_calls centring_scaler
        [(Some ''fit'', Inr \<lparr>df_columns = [''Confirmed'', ''Deaths''],
            df_rows = [[Some 100, Some 10], [Some 110, Some 12], [Some 130, Some 15]]\<rparr>),
         (Some ''fit'', Inl FileNotFoundError)]
        (PowerConsumptionDataModule_init 3 16 0)) = Inl AttributeError"
  using y_test_never_initialised [where sl = 3 and bs = 16 and nw = 0 and cx = id and cy = id
      and sc = centring_scaler and cs =
      "[(Some ''fit'', Inr \<lparr>df_columns = [''Confirmed'', ''Deaths''],
            df_rows = [[Some 100, Some 10], [Some 110, Some 12], [Some 130, Some 15]]\<rparr>),
         (Some ''fit'', Inl FileNotFoundError)]", OF refl]
  by simp

end
